theory Spec2Isabelle
  imports Complex_Main
begin

section \<open>Skew controls of the canvas object model (src/controls/skew.ts)\<close>

text \<open>
  The embedding follows \<^verbatim>\<open>skew.ts\<close>: the axis table \<^verbatim>\<open>AXIS_KEYS\<close>, the cursor
  resolver \<^verbatim>\<open>skewCursorStyleHandler\<close>, the geometry engine \<^verbatim>\<open>skewObject\<close>, the
  adaptor \<^verbatim>\<open>skewTransformAdaptor\<close> and the wrapper chain of \<^verbatim>\<open>createSkewHandler\<close>.

  JavaScript numbers are modelled as real numbers: rounding, \<^verbatim>\<open>NaN\<close>, the infinities and
  the sign of zero are not represented. A division by zero, which JavaScript answers with
  an infinity or \<^verbatim>\<open>NaN\<close>, is kept out by a hypothesis (non-zero width and height) of
  every statement whose conclusion depends on the change of basis.

  The object is mutated in place by the source and events are fired as a side effect;
  here a handler returns an \<open>Outcome\<close>: the boolean it returns, the object as it is left,
  and the events fired, in order.
\<close>

subsection \<open>Points and matrices\<close>

datatype Point = Point (px: real) (py: real)

text \<open>A \<^verbatim>\<open>TMat2D\<close> \<^verbatim>\<open>[a, b, c, d, e, f]\<close> sends \<open>(x, y)\<close> to \<open>(a x + c y + e, b x + d y + f)\<close>.\<close>

datatype TMat2D = TMat2D real real real real real real

datatype TAxis = AxisX | AxisY

definition coord :: "Point \<Rightarrow> TAxis \<Rightarrow> real" where
  \<comment> \<open>\<^verbatim>\<open>point[axis]\<close>\<close>
  "coord p axis = (case axis of AxisX \<Rightarrow> px p | AxisY \<Rightarrow> py p)"

definition createVector :: "Point \<Rightarrow> Point \<Rightarrow> Point" where
  \<comment> \<open>Modelled from the spec: \<^verbatim>\<open>createVector\<close> of util/misc/vectors is not among the
      sources; the spec computes the drag delta as \<open>d = pointer - last\<close>.\<close>
  "createVector from to = Point (px to - px from) (py to - py from)"

definition degreesToRadians :: "real \<Rightarrow> real" where
  \<comment> \<open>Modelled from the spec: the angle conversion of util/misc/radiansDegreesConversion
      is not among the sources.\<close>
  "degreesToRadians degrees = degrees * pi / 180"

definition radiansToDegrees :: "real \<Rightarrow> real" where
  \<comment> \<open>Modelled from the spec: the converse angle conversion.\<close>
  "radiansToDegrees radians = radians * 180 / pi"

definition iMatrix :: TMat2D where
  "iMatrix = TMat2D 1 0 0 1 0 0"

fun multiplyTransformMatrices :: "TMat2D \<Rightarrow> TMat2D \<Rightarrow> TMat2D" where
  \<comment> \<open>Modelled from the spec: the matrix product of util/misc/matrix is not among the
      sources; this is the product of two affine maps, the right one applied first.\<close>
  "multiplyTransformMatrices (TMat2D a0 a1 a2 a3 a4 a5) (TMat2D b0 b1 b2 b3 b4 b5) =
     TMat2D (a0 * b0 + a2 * b1) (a1 * b0 + a3 * b1)
            (a0 * b2 + a2 * b3) (a1 * b2 + a3 * b3)
            (a0 * b4 + a2 * b5 + a4) (a1 * b4 + a3 * b5 + a5)"

definition multiplyTransformMatrixChain :: "TMat2D list \<Rightarrow> TMat2D" where
  \<comment> \<open>Modelled from the spec: matrix-chain multiplication,
      \<open>newMatrix = ownMatrix \<cdot> shearingChange\<close> for the chain \<open>[ownMatrix, shearingChange]\<close>.\<close>
  "multiplyTransformMatrixChain matrices = foldr multiplyTransformMatrices matrices iMatrix"

fun invertTransform :: "TMat2D \<Rightarrow> TMat2D" where
  \<comment> \<open>Modelled from the spec: the inverse of an affine map, needed by the change of basis.
      Where the determinant is zero JavaScript yields infinities or \<^verbatim>\<open>NaN\<close>; the theorems
      assume a non-degenerate basis.\<close>
  "invertTransform (TMat2D a b c d e f) =
     (let k = 1 / (a * d - b * c)
      in TMat2D (k * d) (- k * b) (- k * c) (k * a)
                (- (k * d * e + (- k * c) * f)) (- ((- k * b) * e + k * a * f)))"

fun transformPoint :: "TMat2D \<Rightarrow> Point \<Rightarrow> Point" where
  \<comment> \<open>Modelled from the spec: a matrix applied to a point.\<close>
  "transformPoint (TMat2D a b c d e f) p =
     Point (a * px p + c * py p + e) (b * px p + d * py p + f)"

definition basisMatrix :: "Point \<times> Point \<Rightarrow> TMat2D" where
  \<comment> \<open>The linear map that sends the unit vectors to the two vectors of a basis.\<close>
  "basisMatrix basis = TMat2D (px (fst basis)) (py (fst basis)) (px (snd basis)) (py (snd basis)) 0 0"

definition calcBaseChangeMatrix :: "Point \<times> Point \<Rightarrow> Point \<times> Point \<Rightarrow> TMat2D" where
  \<comment> \<open>Modelled from the spec: \<^verbatim>\<open>calcBaseChangeMatrix\<close> of util/misc/planeChange is not among
      the sources; the spec has it build the change-of-basis matrix that maps the first
      basis onto the second.\<close>
  "calcBaseChangeMatrix from to =
     multiplyTransformMatrices (basisMatrix to) (invertTransform (basisMatrix from))"

fun isMatrixEqual :: "real \<Rightarrow> TMat2D \<Rightarrow> TMat2D \<Rightarrow> bool" where
  \<comment> \<open>Modelled from the spec: \<^verbatim>\<open>isMatrixEqual\<close> of util/misc/matrix is not among the
      sources; the spec has it compare entry by entry, within a small epsilon, which is
      a parameter here (\<open>0\<close> is exact equality).\<close>
  "isMatrixEqual eps (TMat2D a0 a1 a2 a3 a4 a5) (TMat2D b0 b1 b2 b3 b4 b5) =
     (\<bar>a0 - b0\<bar> \<le> eps \<and> \<bar>a1 - b1\<bar> \<le> eps \<and> \<bar>a2 - b2\<bar> \<le> eps \<and>
      \<bar>a3 - b3\<bar> \<le> eps \<and> \<bar>a4 - b4\<bar> \<le> eps \<and> \<bar>a5 - b5\<bar> \<le> eps)"

subsection \<open>The data model\<close>

text \<open>
  An origin is one of the symbolic tokens or a number. \<^verbatim>\<open>skew.ts\<close> reads and writes origins
  of the transform session only.
\<close>

datatype TOrigin = OStart | OCenter | OEnd | ONumeric real

fun resolveOrigin :: "TOrigin \<Rightarrow> real" where
  \<comment> \<open>Modelled from the spec: \<^verbatim>\<open>resolveOrigin\<close> of util/misc/resolveOrigin is not among the
      sources; the spec maps start to -0.5, center to 0, end to +0.5 and passes a number
      through.\<close>
  "resolveOrigin OStart = - (1 / 2)"
| "resolveOrigin OCenter = 0"
| "resolveOrigin OEnd = 1 / 2"
| "resolveOrigin (ONumeric v) = v"

text \<open>
  The target object: the properties \<^verbatim>\<open>skew.ts\<close> reads (size, skew angles in degrees, flips,
  lock flags) and the properties the spec has the transform application commit (scale,
  angle, translation).
\<close>

record FabricObject =
  width :: real
  height :: real
  scaleX :: real
  scaleY :: real
  skewX :: real
  skewY :: real
  angle :: real
  translateX :: real
  translateY :: real
  flipX :: bool
  flipY :: bool
  lockSkewingX :: bool
  lockSkewingY :: bool

record Transform =
  target :: FabricObject
  originX :: TOrigin
  originY :: TOrigin
  lastX :: real
  lastY :: real

text \<open>
  \<^verbatim>\<open>SkewTransform = Transform & { skewingSide: -1 | 1 }\<close>. The field is a number here:
  the adaptor computes it with \<^verbatim>\<open>Math.sign\<close>, which can be \<open>0\<close>.
\<close>

record SkewTransform = Transform +
  skewingSide :: real

datatype Control = Control (control_x: real) (control_y: real)

datatype 'e FiredEvent = FiredEvent string 'e SkewTransform real real

record 'e Outcome =
  returned :: bool
  targetAfter :: FabricObject
  fired :: "'e FiredEvent list"

subsection \<open>Collaborators outside the sources\<close>

text \<open>
  \<^verbatim>\<open>skew.ts\<close> calls methods and helpers whose code is not among the sources and whose
  formulas the spec does not give; the spec lists them as consumed interfaces. They are
  parameters of the model, and what a theorem needs of them is a hypothesis of it:
  \<^item> \<open>calcOwnMatrix\<close>: \<^verbatim>\<open>target.calcOwnMatrix()\<close>, the own matrix derived from the properties;
  \<^item> \<open>applyTransformToObject\<close>: decomposes a matrix into the object's properties and
    commits them;
  \<^item> \<open>getLocalPoint\<close>: a canvas point in the object's frame, relative to an origin;
  \<^item> \<open>findCornerQuadrant\<close>: the corner quadrant of a control, a whole number, which may be
    negative;
  \<^item> \<open>anchorPosition\<close>: the screen position of the point of the object at an origin;
  \<^item> \<open>epsilon\<close>: the tolerance of the matrix comparison.
\<close>

record Collaborators =
  calcOwnMatrix :: "FabricObject \<Rightarrow> TMat2D"
  applyTransformToObject :: "FabricObject \<Rightarrow> TMat2D \<Rightarrow> FabricObject"
  getLocalPoint :: "Transform \<Rightarrow> TOrigin \<Rightarrow> TOrigin \<Rightarrow> real \<Rightarrow> real \<Rightarrow> Point"
  findCornerQuadrant :: "FabricObject \<Rightarrow> Control \<Rightarrow> int"
  anchorPosition :: "FabricObject \<Rightarrow> TOrigin \<Rightarrow> TOrigin \<Rightarrow> Point"
  epsilon :: real

definition lossless_on :: "Collaborators \<Rightarrow> FabricObject \<Rightarrow> TMat2D \<Rightarrow> bool" where
  \<comment> \<open>The transform application loses nothing of matrix \<open>m\<close>: the own matrix recomputed
      after it is \<open>m\<close> (spec, sections 3 and 6).\<close>
  "lossless_on env obj m \<longleftrightarrow> calcOwnMatrix env (applyTransformToObject env obj m) = m"

definition reapplies_own :: "Collaborators \<Rightarrow> FabricObject \<Rightarrow> bool" where
  \<comment> \<open>Applying to an object its own matrix leaves every property as it is.\<close>
  "reapplies_own env obj \<longleftrightarrow> applyTransformToObject env obj (calcOwnMatrix env obj) = obj"

definition keeps_size :: "Collaborators \<Rightarrow> bool" where
  \<comment> \<open>The transform application commits scale, skew, angle and translation (spec,
      section 6): it does not write the size.\<close>
  "keeps_size env \<longleftrightarrow>
     (\<forall>obj m. width (applyTransformToObject env obj m) = width obj \<and>
              height (applyTransformToObject env obj m) = height obj)"

definition translateObject :: "FabricObject \<Rightarrow> Point \<Rightarrow> FabricObject" where
  \<comment> \<open>The object moved by a vector.\<close>
  "translateObject obj v =
     obj\<lparr>translateX := translateX obj + px v, translateY := translateY obj + py v\<rparr>"

definition anchor_moves_with_object :: "Collaborators \<Rightarrow> bool" where
  \<comment> \<open>A point of the object moves by the vector the object is moved by.\<close>
  "anchor_moves_with_object env \<longleftrightarrow>
     (\<forall>obj v ox oy. anchorPosition env (translateObject obj v) ox oy =
        Point (px (anchorPosition env obj ox oy) + px v) (py (anchorPosition env obj ox oy) + py v))"

subsection \<open>The axis table\<close>

text \<open>
  \<^verbatim>\<open>AXIS_KEYS\<close> maps an axis to the property keys it governs. A key is modelled by the
  accessor of the property (and, for the origin, which the adaptor writes, by its update
  as well). The \<^verbatim>\<open>shear\<close> keys are never read by \<^verbatim>\<open>skew.ts\<close> and name no property of the
  model; they are left out.
\<close>

record AxisKeys =
  counterAxis :: TAxis
  scaleKey :: "FabricObject \<Rightarrow> real"
  skewKey :: "FabricObject \<Rightarrow> real"
  lockSkewing :: "FabricObject \<Rightarrow> bool"
  originKey :: "Transform \<Rightarrow> TOrigin"
  setOriginKey :: "TOrigin \<Rightarrow> Transform \<Rightarrow> Transform"
  flipKey :: "FabricObject \<Rightarrow> bool"

fun AXIS_KEYS :: "TAxis \<Rightarrow> AxisKeys" where
  "AXIS_KEYS AxisX =
     \<lparr>counterAxis = AxisY, scaleKey = scaleX, skewKey = skewX, lockSkewing = lockSkewingX,
      originKey = originX, setOriginKey = (\<lambda>v tr. tr\<lparr>originX := v\<rparr>), flipKey = flipX\<rparr>"
| "AXIS_KEYS AxisY =
     \<lparr>counterAxis = AxisX, scaleKey = scaleY, skewKey = skewY, lockSkewing = lockSkewingY,
      originKey = originY, setOriginKey = (\<lambda>v tr. tr\<lparr>originY := v\<rparr>), flipKey = flipY\<rparr>"

subsection \<open>The cursor resolver\<close>

definition skewMap :: "string list" where
  "skewMap = [''ns'', ''nesw'', ''ew'', ''nwse'']"

definition NOT_ALLOWED_CURSOR :: string where
  \<comment> \<open>Modelled from the spec: the constant of controls/util is not among the sources; the
      spec calls it the fixed "not-allowed" indicator.\<close>
  "NOT_ALLOWED_CURSOR = ''not-allowed''"

definition isLocked :: "FabricObject \<Rightarrow> (FabricObject \<Rightarrow> bool) \<Rightarrow> bool" where
  \<comment> \<open>Modelled from the spec: \<^verbatim>\<open>isLocked\<close> of controls/util is not among the sources; the
      spec reads the lock flag of the object.\<close>
  "isLocked obj lockingKey = lockingKey obj"

definition jsRemainder :: "int \<Rightarrow> int \<Rightarrow> int" where
  \<comment> \<open>JavaScript's \<^verbatim>\<open>%\<close> on whole numbers: the remainder of the truncated division, which
      has the sign of the dividend (\<^verbatim>\<open>-1 % 4\<close> is \<^verbatim>\<open>-1\<close>). The divisor is not zero here.\<close>
  "jsRemainder a b = (if a < 0 then - ((- a) mod \<bar>b\<bar>) else a mod \<bar>b\<bar>)"

definition templateEntry :: "string list \<Rightarrow> int \<Rightarrow> string" where
  \<comment> \<open>\<^verbatim>\<open>${array[n]}\<close> in a template: the entry at an index of the array, and the text
      \<^verbatim>\<open>undefined\<close> at any other number.\<close>
  "templateEntry array n =
     (if 0 \<le> n \<and> n < int (length array) then array ! nat n else ''undefined'')"

definition skewCursorStyleHandler :: "Collaborators \<Rightarrow> 'e \<Rightarrow> Control \<Rightarrow> FabricObject \<Rightarrow> string" where
  "skewCursorStyleHandler env eventData control fabricObject =
     (if control_x control \<noteq> 0 \<and> isLocked fabricObject lockSkewingY then NOT_ALLOWED_CURSOR
      else if control_y control \<noteq> 0 \<and> isLocked fabricObject lockSkewingX then NOT_ALLOWED_CURSOR
      else (let n = jsRemainder (findCornerQuadrant env fabricObject control) 4
            in templateEntry skewMap n @ ''-resize''))"

subsection \<open>The geometry engine\<close>

definition shearingChange :: "TAxis \<Rightarrow> FabricObject \<Rightarrow> real \<Rightarrow> Point \<Rightarrow> TMat2D" where
  \<comment> \<open>The constant \<^verbatim>\<open>shearingChange\<close> of \<^verbatim>\<open>skewObject\<close> (lines 100 to 113), as a function of
      the axis, the target, \<^verbatim>\<open>skewingSide\<close> and the drag vector \<^verbatim>\<open>d\<close>.\<close>
  "shearingChange axis tgt side d =
     (let size = Point (width tgt) (height tgt)
      in calcBaseChangeMatrix
           (Point (px size) 0, Point 0 (py size))
           (Point (px size)
                  (if axis = AxisY then py d * side * 2
                   else tan (degreesToRadians (skewY tgt)) * px size),
            Point (if axis = AxisX then px d * side * 2 else 0) (py size)))"

definition skewObject ::
  "Collaborators \<Rightarrow> TAxis \<Rightarrow> 'e \<Rightarrow> SkewTransform \<Rightarrow> real \<Rightarrow> real \<Rightarrow> 'e Outcome" where
  "skewObject env axis eventData transform x y =
     (let ownMatrix = calcOwnMatrix env (target transform);
          d = createVector (Point (lastX transform) (lastY transform)) (Point x y);
          tgt = applyTransformToObject env (target transform)
                  (multiplyTransformMatrixChain
                     [ownMatrix, shearingChange axis (target transform) (skewingSide transform) d])
      in \<lparr>returned = \<not> isMatrixEqual (epsilon env) (calcOwnMatrix env tgt) ownMatrix,
          targetAfter = tgt, fired = []\<rparr>)"

subsection \<open>The transform adaptor\<close>

text \<open>Each constant of \<^verbatim>\<open>skewTransformAdaptor\<close> is a definition of its own.\<close>

definition counterOriginFactor :: "TAxis \<Rightarrow> Transform \<Rightarrow> real" where
  "counterOriginFactor axis transform =
     resolveOrigin (originKey (AXIS_KEYS (counterAxis (AXIS_KEYS axis))) transform) *
     (if flipKey (AXIS_KEYS (counterAxis (AXIS_KEYS axis))) (target transform) then - 1 else 1)"

definition adaptorSkewingSide :: "TAxis \<Rightarrow> Transform \<Rightarrow> real" where
  \<comment> \<open>The constant \<^verbatim>\<open>skewingSide\<close>; \<^verbatim>\<open>Math.sign\<close> is \<open>sgn\<close>.\<close>
  "adaptorSkewingSide axis transform =
     - sgn (counterOriginFactor axis transform) *
     (if flipKey (AXIS_KEYS axis) (target transform) then - 1 else 1)"

definition skewingBranch :: "Collaborators \<Rightarrow> TAxis \<Rightarrow> Transform \<Rightarrow> real \<Rightarrow> real \<Rightarrow> real" where
  \<comment> \<open>The conditional \<^verbatim>\<open>(... ? 1 : -1)\<close> of \<^verbatim>\<open>skewingDirection\<close>, before it is multiplied by
      \<^verbatim>\<open>skewingSide\<close>.\<close>
  "skewingBranch env axis transform x y =
     (if (skewKey (AXIS_KEYS axis) (target transform) = 0 \<and>
          coord (getLocalPoint env transform OCenter OCenter x y) axis > 0) \<or>
         skewKey (AXIS_KEYS axis) (target transform) > 0
      then 1 else - 1)"

definition skewingDirection :: "Collaborators \<Rightarrow> TAxis \<Rightarrow> Transform \<Rightarrow> real \<Rightarrow> real \<Rightarrow> real" where
  "skewingDirection env axis transform x y =
     skewingBranch env axis transform x y * adaptorSkewingSide axis transform"

definition adaptorOrigin :: "Collaborators \<Rightarrow> TAxis \<Rightarrow> Transform \<Rightarrow> real \<Rightarrow> real \<Rightarrow> real" where
  \<comment> \<open>The constant \<^verbatim>\<open>origin\<close>.\<close>
  "adaptorOrigin env axis transform x y = - skewingDirection env axis transform x y * (1 / 2) + 1 / 2"

definition skewTransformAdaptor ::
  "Collaborators \<Rightarrow> TAxis \<Rightarrow> 'e \<Rightarrow> Transform \<Rightarrow> real \<Rightarrow> real \<Rightarrow> SkewTransform" where
  "skewTransformAdaptor env axis eventData transform x y =
     Transform.extend
       (setOriginKey (AXIS_KEYS axis) (ONumeric (adaptorOrigin env axis transform x y)) transform)
       (SkewTransform.fields (adaptorSkewingSide axis transform))"

subsection \<open>The wrapper chain\<close>

definition wrapWithFixedAnchor ::
  "Collaborators \<Rightarrow> ('e \<Rightarrow> SkewTransform \<Rightarrow> real \<Rightarrow> real \<Rightarrow> 'e Outcome) \<Rightarrow>
   'e \<Rightarrow> SkewTransform \<Rightarrow> real \<Rightarrow> real \<Rightarrow> 'e Outcome" where
  \<comment> \<open>Modelled from the spec: controls/wrapWithFixedAnchor is not among the sources. The
      spec: it captures the anchor point's screen position before delegating, lets the
      inner function mutate the target, then re-translates the target so that the anchor
      point returns to its position.\<close>
  "wrapWithFixedAnchor env actionHandler eventData transform x y =
     (let constraint = anchorPosition env (target transform) (originX transform) (originY transform);
          actionPerformed = actionHandler eventData transform x y;
          moved = anchorPosition env (targetAfter actionPerformed)
                    (originX transform) (originY transform)
      in actionPerformed\<lparr>targetAfter :=
           translateObject (targetAfter actionPerformed) (createVector moved constraint)\<rparr>)"

definition wrapWithFireEvent ::
  "string \<Rightarrow> ('e \<Rightarrow> SkewTransform \<Rightarrow> real \<Rightarrow> real \<Rightarrow> 'e Outcome) \<Rightarrow>
   'e \<Rightarrow> SkewTransform \<Rightarrow> real \<Rightarrow> real \<Rightarrow> 'e Outcome" where
  \<comment> \<open>Modelled from the spec: controls/wrapWithFireEvent is not among the sources. The
      spec: it delegates, and if the inner call reports a change it emits the event with
      the event data and the transform session; otherwise it emits nothing.\<close>
  "wrapWithFireEvent eventName actionHandler eventData transform x y =
     (let actionPerformed = actionHandler eventData transform x y
      in if returned actionPerformed
         then actionPerformed\<lparr>fired := fired actionPerformed @
                [FiredEvent eventName eventData
                   (transform\<lparr>target := targetAfter actionPerformed\<rparr>) x y]\<rparr>
         else actionPerformed)"

definition wrapWithTransformAdaptor ::
  "('e \<Rightarrow> SkewTransform \<Rightarrow> real \<Rightarrow> real \<Rightarrow> 'e Outcome) \<Rightarrow>
   ('e \<Rightarrow> Transform \<Rightarrow> real \<Rightarrow> real \<Rightarrow> SkewTransform) \<Rightarrow>
   'e \<Rightarrow> Transform \<Rightarrow> real \<Rightarrow> real \<Rightarrow> 'e Outcome" where
  \<comment> \<open>Modelled from the spec: controls/wrapWithTransformAdaptor is not among the sources.
      The spec: before delegating, it replaces the session with the adaptor's.\<close>
  "wrapWithTransformAdaptor actionHandler adaptor eventData transform x y =
     actionHandler eventData (adaptor eventData transform x y) x y"

definition wrapWithDisableAction ::
  "('e \<Rightarrow> Transform \<Rightarrow> real \<Rightarrow> real \<Rightarrow> 'e Outcome) \<Rightarrow> (FabricObject \<Rightarrow> bool) \<Rightarrow>
   'e \<Rightarrow> Transform \<Rightarrow> real \<Rightarrow> real \<Rightarrow> 'e Outcome" where
  \<comment> \<open>Modelled from the spec: controls/wrapWithDisableAction is not among the sources. The
      spec: it short-circuits to "no-op, no change" if the lock flag of the target is
      set; otherwise it delegates.\<close>
  "wrapWithDisableAction actionHandler lockingKey eventData transform x y =
     (if isLocked (target transform) lockingKey
      then \<lparr>returned = False, targetAfter = target transform, fired = []\<rparr>
      else actionHandler eventData transform x y)"

definition createSkewHandler ::
  "Collaborators \<Rightarrow> TAxis \<Rightarrow> 'e \<Rightarrow> Transform \<Rightarrow> real \<Rightarrow> real \<Rightarrow> 'e Outcome" where
  "createSkewHandler env axis =
     wrapWithDisableAction
       (wrapWithTransformAdaptor
          (wrapWithFireEvent ''skewing'' (wrapWithFixedAnchor env (skewObject env axis)))
          (skewTransformAdaptor env axis))
       (lockSkewing (AXIS_KEYS axis))"

definition skewHandlerX :: "Collaborators \<Rightarrow> 'e \<Rightarrow> Transform \<Rightarrow> real \<Rightarrow> real \<Rightarrow> 'e Outcome" where
  "skewHandlerX env = createSkewHandler env AxisX"

definition skewHandlerY :: "Collaborators \<Rightarrow> 'e \<Rightarrow> Transform \<Rightarrow> real \<Rightarrow> real \<Rightarrow> 'e Outcome" where
  "skewHandlerY env = createSkewHandler env AxisY"

subsection \<open>An instance of the collaborators, and concrete inputs\<close>

text \<open>
  The theorems hold for every collaborator that meets their hypotheses. To run the
  handlers on concrete inputs, one instance is fixed. Its own matrix is that of an object
  that is not rotated and whose translation is the position of its centre:
  scale \<open>\<cdot>\<close> skewX \<open>\<cdot>\<close> skewY followed by the translation; its transform application
  solves that product for the scales and the two skew angles. The point of the object at
  an origin is the image, under the own matrix, of the point of the unskewed rectangle
  there. A numeric origin lies in \<open>[0, 1]\<close> (\<^verbatim>\<open>skew.ts\<close>, lines 159 to 161), so its factor is
  the number less one half. The corner quadrant, the one collaborator that reads the
  angle of the object, is the eighth of the turn nearest to the direction of the control,
  turned by that angle.
\<close>

definition sampleOwnMatrix :: "FabricObject \<Rightarrow> TMat2D" where
  "sampleOwnMatrix obj =
     (let sx = scaleX obj * (if flipX obj then - 1 else 1);
          sy = scaleY obj * (if flipY obj then - 1 else 1);
          tx = tan (degreesToRadians (skewX obj));
          ty = tan (degreesToRadians (skewY obj))
      in TMat2D (sx * (1 + tx * ty)) (sy * ty) (sx * tx) sy (translateX obj) (translateY obj))"

fun sampleApply :: "FabricObject \<Rightarrow> TMat2D \<Rightarrow> FabricObject" where
  "sampleApply obj (TMat2D a b c d e f) =
     (let sy = d; ty = b / d; sx = a - c * ty; tx = c / sx
      in obj\<lparr>scaleX := sx, scaleY := sy,
             skewX := radiansToDegrees (arctan tx), skewY := radiansToDegrees (arctan ty),
             angle := 0, translateX := e, translateY := f, flipX := False, flipY := False\<rparr>)"

fun sampleOriginFactor :: "TOrigin \<Rightarrow> real" where
  "sampleOriginFactor OStart = - (1 / 2)"
| "sampleOriginFactor OCenter = 0"
| "sampleOriginFactor OEnd = 1 / 2"
| "sampleOriginFactor (ONumeric v) = v - 1 / 2"

definition sampleAnchorPosition :: "FabricObject \<Rightarrow> TOrigin \<Rightarrow> TOrigin \<Rightarrow> Point" where
  "sampleAnchorPosition obj ox oy =
     transformPoint (sampleOwnMatrix obj)
       (Point (sampleOriginFactor ox * width obj) (sampleOriginFactor oy * height obj))"

definition atan2 :: "real \<Rightarrow> real \<Rightarrow> real" where
  \<comment> \<open>\<^verbatim>\<open>Math.atan2(y, x)\<close>, the angle of the direction \<open>(x, y)\<close>.\<close>
  "atan2 v u =
     (if 0 < u then arctan (v / u)
      else if u < 0 then (if 0 \<le> v then arctan (v / u) + pi else arctan (v / u) - pi)
      else if 0 < v then pi / 2 else if v < 0 then - (pi / 2) else 0)"

definition jsRemainderNumber :: "real \<Rightarrow> real \<Rightarrow> real" where
  \<comment> \<open>JavaScript's \<^verbatim>\<open>%\<close> on numbers: the quotient is truncated towards zero.\<close>
  "jsRemainderNumber a b =
     a - b * of_int (if 0 \<le> a / b then \<lfloor>a / b\<rfloor> else \<lceil>a / b\<rceil>)"

definition sampleFindCornerQuadrant :: "FabricObject \<Rightarrow> Control \<Rightarrow> int" where
  \<comment> \<open>\<^verbatim>\<open>Math.round\<close> of an eighth of the turn; \<^verbatim>\<open>Math.round(v)\<close> is \<open>\<lfloor>v + 1/2\<rfloor>\<close>.\<close>
  "sampleFindCornerQuadrant obj control =
     (let cornerAngle =
            angle obj + radiansToDegrees (atan2 (control_y control) (control_x control)) + 360
      in \<lfloor>jsRemainderNumber cornerAngle 360 / 45 + 1 / 2\<rfloor>)"

definition sampleCollaborators :: Collaborators where
  "sampleCollaborators =
     \<lparr>calcOwnMatrix = sampleOwnMatrix,
      applyTransformToObject = sampleApply,
      getLocalPoint = (\<lambda>tr ox oy x y.
         Point (x - translateX (target tr) - sampleOriginFactor ox * width (target tr))
               (y - translateY (target tr) - sampleOriginFactor oy * height (target tr))),
      findCornerQuadrant = sampleFindCornerQuadrant,
      anchorPosition = sampleAnchorPosition,
      epsilon = 0\<rparr>"

definition squareObject :: FabricObject where
  \<comment> \<open>The object of the spec's scenarios: 100 by 100, no skew, no flip, centred at (50, 50).\<close>
  "squareObject =
     \<lparr>width = 100, height = 100, scaleX = 1, scaleY = 1, skewX = 0, skewY = 0, angle = 0,
      translateX = 50, translateY = 50, flipX = False, flipY = False,
      lockSkewingX = False, lockSkewingY = False\<rparr>"

definition centredSession :: "FabricObject \<Rightarrow> Transform" where
  \<comment> \<open>A session on an object whose origins are both the centre and whose drag starts at
      (50, 50).\<close>
  "centredSession obj =
     \<lparr>target = obj, originX = OCenter, originY = OCenter, lastX = 50, lastY = 50\<rparr>"

section \<open>Properties\<close>

subsection \<open>Matrix facts\<close>

lemma multiply_iMatrix_right: "multiplyTransformMatrices m iMatrix = m"
  by (cases m) (simp add: iMatrix_def)

lemma chain_pair: "multiplyTransformMatrixChain [m, n] = multiplyTransformMatrices m n"
  by (simp add: multiplyTransformMatrixChain_def multiply_iMatrix_right)

lemma isMatrixEqual_refl: "0 \<le> eps \<Longrightarrow> isMatrixEqual eps m m"
  by (cases m) simp

lemma shearingChange_explicit:
  assumes "width tgt \<noteq> 0" and "height tgt \<noteq> 0"
  shows "shearingChange axis tgt side d =
           TMat2D 1 ((if axis = AxisY then py d * side * 2
                      else tan (degreesToRadians (skewY tgt)) * width tgt) / width tgt)
                  ((if axis = AxisX then px d * side * 2 else 0) / height tgt) 1 0 0"
  using assms
  by (simp add: shearingChange_def calcBaseChangeMatrix_def basisMatrix_def Let_def field_simps)

lemma shearingChange_identity:
  assumes "width tgt \<noteq> 0" and "height tgt \<noteq> 0"
    and "(if axis = AxisY then py d * side * 2 else tan (degreesToRadians (skewY tgt)) * width tgt) = 0"
    and "(if axis = AxisX then px d * side * 2 else 0) = 0"
  shows "shearingChange axis tgt side d = iMatrix"
  using assms(3,4) unfolding shearingChange_explicit [OF assms(1,2)] iMatrix_def
  by (simp split: if_splits)

text \<open>
  What the x-axis change of basis does to any own matrix when the drag has no x-component:
  the tangent of the current \<open>skewY\<close> is added once more to the first column.
\<close>

lemma x_skew_adds_held_shear:
  assumes "width tgt \<noteq> 0" and "height tgt \<noteq> 0"
  shows "multiplyTransformMatrixChain
           [TMat2D a b c d e f, shearingChange AxisX tgt side (Point 0 dy)] =
         TMat2D (a + c * tan (degreesToRadians (skewY tgt)))
                (b + d * tan (degreesToRadians (skewY tgt))) c d e f"
  using assms by (simp add: chain_pair shearingChange_explicit)

lemma translateObject_zero: "translateObject obj (createVector p p) = obj"
  by (simp add: translateObject_def createVector_def)

lemma degreesToRadians_0 [simp]: "degreesToRadians 0 = 0"
  by (simp add: degreesToRadians_def)

lemma degreesToRadians_45: "degreesToRadians 45 = pi / 4"
  by (simp add: degreesToRadians_def)

lemma degreesToRadians_radiansToDegrees [simp]: "degreesToRadians (radiansToDegrees r) = r"
  by (simp add: degreesToRadians_def radiansToDegrees_def)

lemma tan_degreesToRadians_45: "tan (degreesToRadians 45) = 1"
  by (simp add: degreesToRadians_45 tan_45)

lemma tan_degrees_arctan [simp]: "tan (degreesToRadians (radiansToDegrees (arctan v))) = v"
  by (simp add: tan_arctan)

subsection \<open>The wrapper chain, unfolded\<close>

lemma skewObject_unchanged:
  assumes "shearingChange axis (target transform) (skewingSide transform)
             (createVector (Point (lastX transform) (lastY transform)) (Point x y)) = iMatrix"
    and "0 \<le> epsilon env"
  shows "lossless_on env (target transform) (calcOwnMatrix env (target transform)) \<Longrightarrow>
           returned (skewObject env axis eventData transform x y) = False \<and>
           fired (skewObject env axis eventData transform x y) = []"
    and "reapplies_own env (target transform) \<Longrightarrow>
           skewObject env axis eventData transform x y =
             \<lparr>returned = False, targetAfter = target transform, fired = []\<rparr>"
  using assms
  by (simp_all add: skewObject_def Let_def chain_pair multiply_iMatrix_right lossless_on_def
      reapplies_own_def isMatrixEqual_refl)

lemma createSkewHandler_unlocked:
  "\<not> lockSkewing (AXIS_KEYS axis) (target transform) \<Longrightarrow>
   createSkewHandler env axis eventData transform x y =
     wrapWithFireEvent ''skewing'' (wrapWithFixedAnchor env (skewObject env axis)) eventData
       (skewTransformAdaptor env axis eventData transform x y) x y"
  by (simp add: createSkewHandler_def wrapWithDisableAction_def wrapWithTransformAdaptor_def
      isLocked_def)

lemma createSkewHandler_locked:
  "lockSkewing (AXIS_KEYS axis) (target transform) \<Longrightarrow>
   createSkewHandler env axis eventData transform x y =
     \<lparr>returned = False, targetAfter = target transform, fired = []\<rparr>"
  by (simp add: createSkewHandler_def wrapWithDisableAction_def isLocked_def)

lemma adaptor_fields [simp]:
  "target (skewTransformAdaptor env axis eventData transform x y) = target transform"
  "lastX (skewTransformAdaptor env axis eventData transform x y) = lastX transform"
  "lastY (skewTransformAdaptor env axis eventData transform x y) = lastY transform"
  "skewingSide (skewTransformAdaptor env axis eventData transform x y) =
     adaptorSkewingSide axis transform"
  by (cases axis; simp add: skewTransformAdaptor_def Transform.defs SkewTransform.defs)+

lemma chain_returns_false:
  assumes "shearingChange axis (target transform) (skewingSide transform)
             (createVector (Point (lastX transform) (lastY transform)) (Point x y)) = iMatrix"
    and "0 \<le> epsilon env"
    and "lossless_on env (target transform) (calcOwnMatrix env (target transform))"
  shows "returned (wrapWithFireEvent ''skewing'' (wrapWithFixedAnchor env (skewObject env axis))
                     eventData transform x y) = False \<and>
         fired (wrapWithFireEvent ''skewing'' (wrapWithFixedAnchor env (skewObject env axis))
                     eventData transform x y) = []"
proof -
  have "returned (skewObject env axis eventData transform x y) = False \<and>
        fired (skewObject env axis eventData transform x y) = []"
    by (rule skewObject_unchanged(1) [OF assms])
  then show ?thesis
    by (simp add: wrapWithFireEvent_def wrapWithFixedAnchor_def Let_def)
qed

lemma chain_unchanged:
  assumes "shearingChange axis (target transform) (skewingSide transform)
             (createVector (Point (lastX transform) (lastY transform)) (Point x y)) = iMatrix"
    and "0 \<le> epsilon env"
    and "reapplies_own env (target transform)"
  shows "wrapWithFireEvent ''skewing'' (wrapWithFixedAnchor env (skewObject env axis))
           eventData transform x y =
         \<lparr>returned = False, targetAfter = target transform, fired = []\<rparr>"
proof -
  have "skewObject env axis eventData transform x y =
          \<lparr>returned = False, targetAfter = target transform, fired = []\<rparr>"
    by (rule skewObject_unchanged(2) [OF assms])
  then show ?thesis
    by (simp add: wrapWithFireEvent_def wrapWithFixedAnchor_def Let_def translateObject_zero)
qed

lemma createSkewHandler_identity_change:
  assumes "shearingChange axis (target transform) (adaptorSkewingSide axis transform)
             (createVector (Point (lastX transform) (lastY transform)) (Point x y)) = iMatrix"
    and "0 \<le> epsilon env"
  shows "lossless_on env (target transform) (calcOwnMatrix env (target transform)) \<Longrightarrow>
           returned (createSkewHandler env axis eventData transform x y) = False \<and>
           fired (createSkewHandler env axis eventData transform x y) = []"
    and "reapplies_own env (target transform) \<Longrightarrow>
           createSkewHandler env axis eventData transform x y =
             \<lparr>returned = False, targetAfter = target transform, fired = []\<rparr>"
proof -
  let ?adapted = "skewTransformAdaptor env axis eventData transform x y"
  have change: "shearingChange axis (target ?adapted) (skewingSide ?adapted)
          (createVector (Point (lastX ?adapted) (lastY ?adapted)) (Point x y)) = iMatrix"
    using assms(1) by simp
  show "returned (createSkewHandler env axis eventData transform x y) = False \<and>
        fired (createSkewHandler env axis eventData transform x y) = []"
    if "lossless_on env (target transform) (calcOwnMatrix env (target transform))"
  proof (cases "lockSkewing (AXIS_KEYS axis) (target transform)")
    case True
    then show ?thesis by (simp add: createSkewHandler_locked)
  next
    case False
    have "lossless_on env (target ?adapted) (calcOwnMatrix env (target ?adapted))"
      using that by simp
    from chain_returns_false [OF change assms(2) this] show ?thesis
      by (simp add: createSkewHandler_unlocked [OF False])
  qed
  show "createSkewHandler env axis eventData transform x y =
          \<lparr>returned = False, targetAfter = target transform, fired = []\<rparr>"
    if "reapplies_own env (target transform)"
  proof (cases "lockSkewing (AXIS_KEYS axis) (target transform)")
    case True
    then show ?thesis by (simp add: createSkewHandler_locked)
  next
    case False
    have "reapplies_own env (target ?adapted)"
      using that by simp
    from chain_unchanged [OF change assms(2) this] show ?thesis
      by (simp add: createSkewHandler_unlocked [OF False])
  qed
qed

text \<open>
  The y-axis change of basis reads the drag alone: with the pointer at the last position
  it is the identity, whatever the skew of the target is.
\<close>

lemma zero_delta_y_axis_is_noop:
  assumes "x = lastX transform" and "y = lastY transform"
    and "width (target transform) \<noteq> 0" and "height (target transform) \<noteq> 0"
    and "0 \<le> epsilon env"
  shows "lossless_on env (target transform) (calcOwnMatrix env (target transform)) \<Longrightarrow>
           returned (skewHandlerY env eventData transform x y) = False \<and>
           fired (skewHandlerY env eventData transform x y) = []"
    and "reapplies_own env (target transform) \<Longrightarrow>
           skewHandlerY env eventData transform x y =
             \<lparr>returned = False, targetAfter = target transform, fired = []\<rparr>"
proof -
  have "shearingChange AxisY (target transform) (adaptorSkewingSide AxisY transform)
          (createVector (Point (lastX transform) (lastY transform)) (Point x y)) = iMatrix"
    using assms(1-4) by (intro shearingChange_identity) (simp_all add: createVector_def)
  from createSkewHandler_identity_change [OF this assms(5)]
  show "lossless_on env (target transform) (calcOwnMatrix env (target transform)) \<Longrightarrow>
           returned (skewHandlerY env eventData transform x y) = False \<and>
           fired (skewHandlerY env eventData transform x y) = []"
    and "reapplies_own env (target transform) \<Longrightarrow>
           skewHandlerY env eventData transform x y =
             \<lparr>returned = False, targetAfter = target transform, fired = []\<rparr>"
    by (simp_all add: skewHandlerY_def)
qed

lemma createSkewHandler_size:
  assumes "keeps_size env"
  shows "width (targetAfter (createSkewHandler env axis eventData transform x y)) =
           width (target transform) \<and>
         height (targetAfter (createSkewHandler env axis eventData transform x y)) =
           height (target transform)"
proof (cases "lockSkewing (AXIS_KEYS axis) (target transform)")
  case True
  then show ?thesis by (simp add: createSkewHandler_locked)
next
  case False
  have "width (targetAfter (skewObject env axis eventData tr x y)) = width (target tr) \<and>
        height (targetAfter (skewObject env axis eventData tr x y)) = height (target tr)" for tr
    using assms by (simp add: skewObject_def Let_def keeps_size_def)
  then show ?thesis
    by (simp add: createSkewHandler_unlocked [OF False] wrapWithFireEvent_def
        wrapWithFixedAnchor_def Let_def translateObject_def)
qed

lemma createSkewHandler_anchor:
  assumes "anchor_moves_with_object env"
  shows "anchorPosition env (targetAfter (createSkewHandler env axis eventData transform x y))
           (originX (skewTransformAdaptor env axis eventData transform x y))
           (originY (skewTransformAdaptor env axis eventData transform x y)) =
         anchorPosition env (target transform)
           (originX (skewTransformAdaptor env axis eventData transform x y))
           (originY (skewTransformAdaptor env axis eventData transform x y))"
proof (cases "lockSkewing (AXIS_KEYS axis) (target transform)")
  case True
  then show ?thesis by (simp add: createSkewHandler_locked)
next
  case False
  have returns: "anchorPosition env (translateObject obj (createVector (anchorPosition env obj ox oy) p)) ox oy = p"
    for obj ox oy p
    using assms by (cases p) (simp add: anchor_moves_with_object_def createVector_def)
  show ?thesis
    by (simp add: createSkewHandler_unlocked [OF False] wrapWithFireEvent_def
        wrapWithFixedAnchor_def Let_def returns)
qed

subsection \<open>The instance of the collaborators meets the hypotheses\<close>

lemma sample_reapplies_square: "reapplies_own sampleCollaborators squareObject"
  by (simp add: reapplies_own_def sampleCollaborators_def sampleOwnMatrix_def squareObject_def
      radiansToDegrees_def)

lemma sample_keeps_size: "keeps_size sampleCollaborators"
proof -
  have "width (sampleApply obj m) = width obj \<and> height (sampleApply obj m) = height obj" for obj m
    by (cases m) (simp add: Let_def)
  then show ?thesis
    by (simp add: keeps_size_def sampleCollaborators_def)
qed

lemma sample_anchor_moves: "anchor_moves_with_object sampleCollaborators"
  by (simp add: anchor_moves_with_object_def sampleCollaborators_def translateObject_def
      sampleAnchorPosition_def sampleOwnMatrix_def Let_def)

lemma sample_lossless_square:
  "lossless_on sampleCollaborators squareObject (calcOwnMatrix sampleCollaborators squareObject)"
  using sample_reapplies_square by (simp add: lossless_on_def reapplies_own_def)

lemmas handler_eval =
  skewHandlerX_def skewHandlerY_def createSkewHandler_def wrapWithDisableAction_def
  wrapWithTransformAdaptor_def wrapWithFireEvent_def wrapWithFixedAnchor_def skewObject_def
  skewTransformAdaptor_def Transform.defs SkewTransform.defs adaptorOrigin_def
  skewingDirection_def skewingBranch_def adaptorSkewingSide_def counterOriginFactor_def
  coord_def createVector_def translateObject_def isLocked_def Let_def chain_pair
  shearingChange_explicit

lemmas sample_eval =
  sampleCollaborators_def sampleOwnMatrix_def sampleAnchorPosition_def squareObject_def
  centredSession_def tan_degreesToRadians_45 tan_arctan

subsection \<open>The concrete y-axis scenario (C1)\<close>

text \<open>
  Claim C1, as amended. The claim has the y-axis handler, on the 100 by 100 object with no
  skew and no flip, in a session whose origins are the centre, dragged from (50, 50) to
  (50, 70), return true and set a positive \<open>skewY\<close>. The counter-axis origin of the
  y-axis is \<open>originX\<close>; at the centre it resolves to 0, \<^verbatim>\<open>skewingSide\<close> is
  \<open>-sgn 0 = 0\<close>, the shear \<open>d.y * skewingSide * 2\<close> is 0 and the change of basis is the
  identity, so the own matrix is applied to the object again. What holds, for that object
  and session:
  \<^item> \<^verbatim>\<open>skewingSide\<close> is 0 and the composed matrix is the own matrix;
  \<^item> where the transform application loses nothing of the own matrix, the handler returns
    false and fires no event;
  \<^item> where the transform application does not write the size, width and height stay 100;
  \<^item> where re-applying the own matrix leaves the object as it is, \<open>skewY\<close> and \<open>skewX\<close>
    stay 0 (and width and height stay 100).
\<close>

theorem centred_scenario_is_noop:
  assumes "width obj = 100" and "height obj = 100" and "skewX obj = 0" and "skewY obj = 0"
    and "\<not> flipX obj" and "\<not> flipY obj" and "0 \<le> epsilon env"
  shows "skewingSide (skewTransformAdaptor env AxisY eventData (centredSession obj) 50 70) = 0 \<and>
         multiplyTransformMatrixChain
           [calcOwnMatrix env obj,
            shearingChange AxisY obj
              (skewingSide (skewTransformAdaptor env AxisY eventData (centredSession obj) 50 70))
              (createVector (Point 50 50) (Point 50 70))] = calcOwnMatrix env obj \<and>
         (lossless_on env obj (calcOwnMatrix env obj) \<longrightarrow>
            returned (skewHandlerY env eventData (centredSession obj) 50 70) = False \<and>
            fired (skewHandlerY env eventData (centredSession obj) 50 70) = []) \<and>
         (keeps_size env \<longrightarrow>
            width (targetAfter (skewHandlerY env eventData (centredSession obj) 50 70)) = 100 \<and>
            height (targetAfter (skewHandlerY env eventData (centredSession obj) 50 70)) = 100) \<and>
         (reapplies_own env obj \<longrightarrow>
            skewY (targetAfter (skewHandlerY env eventData (centredSession obj) 50 70)) = 0 \<and>
            skewX (targetAfter (skewHandlerY env eventData (centredSession obj) 50 70)) = 0 \<and>
            width (targetAfter (skewHandlerY env eventData (centredSession obj) 50 70)) = 100 \<and>
            height (targetAfter (skewHandlerY env eventData (centredSession obj) 50 70)) = 100)"
proof -
  let ?tr = "centredSession obj"
  have tgt: "target ?tr = obj"
    by (simp add: centredSession_def)
  have side: "adaptorSkewingSide AxisY ?tr = 0"
    by (simp add: adaptorSkewingSide_def counterOriginFactor_def centredSession_def)
  have change: "shearingChange AxisY (target ?tr) (adaptorSkewingSide AxisY ?tr)
          (createVector (Point (lastX ?tr) (lastY ?tr)) (Point 50 70)) = iMatrix"
    unfolding side tgt using assms(1,2) by (intro shearingChange_identity) simp_all
  note noop = createSkewHandler_identity_change [OF change assms(7), unfolded tgt]
  have "multiplyTransformMatrixChain
          [calcOwnMatrix env obj,
           shearingChange AxisY obj (skewingSide (skewTransformAdaptor env AxisY eventData ?tr 50 70))
             (createVector (Point 50 50) (Point 50 70))] = calcOwnMatrix env obj"
    using change by (simp add: chain_pair multiply_iMatrix_right centredSession_def)
  moreover have "returned (skewHandlerY env eventData ?tr 50 70) = False \<and>
        fired (skewHandlerY env eventData ?tr 50 70) = []"
    if "lossless_on env obj (calcOwnMatrix env obj)"
    using noop(1) [OF that] by (simp add: skewHandlerY_def)
  moreover have "width (targetAfter (skewHandlerY env eventData ?tr 50 70)) = 100 \<and>
                 height (targetAfter (skewHandlerY env eventData ?tr 50 70)) = 100"
    if "keeps_size env"
    using createSkewHandler_size [OF that, of AxisY eventData ?tr 50 70] assms(1,2)
    by (simp add: skewHandlerY_def tgt)
  moreover have "skewHandlerY env eventData ?tr 50 70 =
                   \<lparr>returned = False, targetAfter = obj, fired = []\<rparr>"
    if "reapplies_own env obj"
    using noop(2) [OF that] by (simp add: skewHandlerY_def)
  ultimately show ?thesis
    using assms(1-4) by (simp add: side)
qed

theorem centred_scenario_is_noop_witness:
  "skewingSide (skewTransformAdaptor sampleCollaborators AxisY () (centredSession squareObject) 50 70) = 0 \<and>
   multiplyTransformMatrixChain
     [calcOwnMatrix sampleCollaborators squareObject,
      shearingChange AxisY squareObject
        (skewingSide (skewTransformAdaptor sampleCollaborators AxisY () (centredSession squareObject) 50 70))
        (createVector (Point 50 50) (Point 50 70))] = calcOwnMatrix sampleCollaborators squareObject \<and>
   returned (skewHandlerY sampleCollaborators () (centredSession squareObject) 50 70) = False \<and>
   fired (skewHandlerY sampleCollaborators () (centredSession squareObject) 50 70) = [] \<and>
   skewY (targetAfter (skewHandlerY sampleCollaborators () (centredSession squareObject) 50 70)) = 0 \<and>
   skewX (targetAfter (skewHandlerY sampleCollaborators () (centredSession squareObject) 50 70)) = 0 \<and>
   width (targetAfter (skewHandlerY sampleCollaborators () (centredSession squareObject) 50 70)) = 100 \<and>
   height (targetAfter (skewHandlerY sampleCollaborators () (centredSession squareObject) 50 70)) = 100"
proof -
  have scenario: "width squareObject = 100" "height squareObject = 100"
    "skewX squareObject = 0" "skewY squareObject = 0"
    "\<not> flipX squareObject" "\<not> flipY squareObject"
    by (simp_all add: squareObject_def)
  have "0 \<le> epsilon sampleCollaborators"
    by (simp add: sampleCollaborators_def)
  from centred_scenario_is_noop [OF scenario this, of "()"]
    sample_lossless_square sample_keeps_size sample_reapplies_square
  show ?thesis
    by blast
qed

text \<open>
  The claim as stated fails on the instance of the collaborators: the handler returns
  false and \<open>skewY\<close> is not positive.
\<close>

theorem centred_scenario_counterexample:
  "\<not> returned (skewHandlerY sampleCollaborators () (centredSession squareObject) 50 70) \<and>
   \<not> 0 < skewY (targetAfter (skewHandlerY sampleCollaborators () (centredSession squareObject) 50 70))"
  by (simp add: handler_eval sample_eval radiansToDegrees_def)

subsection \<open>The change of basis (C2)\<close>

text \<open>
  Claim C2, as amended. The claim puts the shear \<open>d.y * skewingSide * 2\<close> of a y-axis skew
  in the x-component of the y-basis vector, and has \<open>tan(skewY) * width\<close> held in the
  x-basis vector during a y-axis skew, symmetrically for the x-axis. In the source the
  image of the x-basis vector \<open>(width, 0)\<close> is \<open>(width, d.y * skewingSide * 2)\<close> when the
  axis is y and \<open>(width, tan(skewY) * width)\<close> when the axis is x; the image of the
  y-basis vector \<open>(0, height)\<close> is \<open>(d.x * skewingSide * 2, height)\<close> when the axis is x
  and \<open>(0, height)\<close> when the axis is y. So: for a non-zero width and height the matrix
  \<^verbatim>\<open>shearingChange\<close> is linear and maps the two basis vectors to these images; the
  tangent of \<open>skewY\<close> is held during an x-axis skew only, and no tangent of \<open>skewX\<close>
  enters.
\<close>

theorem shearingChange_maps_basis:
  assumes "width tgt \<noteq> 0" and "height tgt \<noteq> 0"
  shows "transformPoint (shearingChange axis tgt side d) (Point (width tgt) 0) =
           Point (width tgt)
                 (if axis = AxisY then py d * side * 2
                  else tan (degreesToRadians (skewY tgt)) * width tgt) \<and>
         transformPoint (shearingChange axis tgt side d) (Point 0 (height tgt)) =
           Point (if axis = AxisX then px d * side * 2 else 0) (height tgt) \<and>
         transformPoint (shearingChange axis tgt side d) (Point 0 0) = Point 0 0"
  using assms by (simp add: shearingChange_explicit)

theorem shearingChange_maps_basis_witness:
  "transformPoint (shearingChange AxisY squareObject 1 (Point 0 20)) (Point 100 0) = Point 100 40 \<and>
   transformPoint (shearingChange AxisY squareObject 1 (Point 0 20)) (Point 0 100) = Point 0 100 \<and>
   transformPoint (shearingChange AxisX (squareObject\<lparr>skewY := 45\<rparr>) 1 (Point 20 0)) (Point 100 0) =
     Point 100 100 \<and>
   transformPoint (shearingChange AxisX (squareObject\<lparr>skewY := 45\<rparr>) 1 (Point 20 0)) (Point 0 100) =
     Point 40 100"
  using shearingChange_maps_basis [of squareObject AxisY 1 "Point 0 20"]
        shearingChange_maps_basis [of "squareObject\<lparr>skewY := 45\<rparr>" AxisX 1 "Point 20 0"]
  by (simp add: squareObject_def degreesToRadians_45 tan_45)

text \<open>
  The claim as stated fails for a y-axis skew by \<open>d = (0, 20)\<close> with \<^verbatim>\<open>skewingSide\<close> 1: the
  x-component of the image of the y-basis vector is 0, not 40, and with \<open>skewY\<close> of 45
  degrees the y-component of the image of the x-basis vector is 40, not
  \<open>tan(skewY) * width = 100\<close>.
\<close>

theorem y_skew_basis_counterexample:
  "px (transformPoint (shearingChange AxisY squareObject 1 (Point 0 20))
         (Point 0 (height squareObject))) \<noteq> py (Point 0 20) * 1 * 2 \<and>
   py (transformPoint (shearingChange AxisY (squareObject\<lparr>skewY := 45\<rparr>) 1 (Point 0 20))
         (Point (width (squareObject\<lparr>skewY := 45\<rparr>)) 0)) \<noteq>
     tan (degreesToRadians (skewY (squareObject\<lparr>skewY := 45\<rparr>))) * width (squareObject\<lparr>skewY := 45\<rparr>)"
  by (simp add: shearingChange_explicit squareObject_def degreesToRadians_45 tan_45)

subsection \<open>The anchor stays where it was (C3)\<close>

text \<open>
  Claim C3. For every invocation of \<^verbatim>\<open>skewHandlerX\<close> or \<^verbatim>\<open>skewHandlerY\<close> on a target of
  non-zero width and height, the screen position of the anchor, the point of the object
  at the origins of the adapted session, is after the call what it was before it. The
  numbers are real numbers here, so the two positions are equal, which is within every
  epsilon. The hypothesis on the collaborator is the one property of the screen position
  that the re-translation relies on: moving the object by a vector moves the point by
  that vector. A target of zero width or height is left out: there the change of basis
  divides by zero.
\<close>

theorem anchor_is_fixed:
  assumes "anchor_moves_with_object env"
    and "width (target transform) \<noteq> 0" and "height (target transform) \<noteq> 0"
  shows "anchorPosition env (targetAfter (skewHandlerX env eventData transform x y))
           (originX (skewTransformAdaptor env AxisX eventData transform x y))
           (originY (skewTransformAdaptor env AxisX eventData transform x y)) =
         anchorPosition env (target transform)
           (originX (skewTransformAdaptor env AxisX eventData transform x y))
           (originY (skewTransformAdaptor env AxisX eventData transform x y)) \<and>
         anchorPosition env (targetAfter (skewHandlerY env eventData transform x y))
           (originX (skewTransformAdaptor env AxisY eventData transform x y))
           (originY (skewTransformAdaptor env AxisY eventData transform x y)) =
         anchorPosition env (target transform)
           (originX (skewTransformAdaptor env AxisY eventData transform x y))
           (originY (skewTransformAdaptor env AxisY eventData transform x y))"
  by (simp add: skewHandlerX_def skewHandlerY_def createSkewHandler_anchor [OF assms(1)])

text \<open>
  On the instance: the object in a session with \<open>originX\<close> at the start is dragged on the
  y-axis handle from (100, 50) to (100, 70). The adaptor sets \<open>originY\<close> to 0, so the
  anchor is the corner at (0, 0). The geometry engine alone skews the object about its
  centre and takes that corner to (0, -20); the handler moves the object by (0, 20), its
  centre from (50, 50) to (50, 70), and the corner is at (0, 0) again.
\<close>

theorem anchor_is_fixed_witness:
  "originX (skewTransformAdaptor sampleCollaborators AxisY ()
     \<lparr>target = squareObject, originX = OStart, originY = OCenter, lastX = 100, lastY = 50\<rparr>
     100 70) = OStart \<and>
   originY (skewTransformAdaptor sampleCollaborators AxisY ()
     \<lparr>target = squareObject, originX = OStart, originY = OCenter, lastX = 100, lastY = 50\<rparr>
     100 70) = ONumeric 0 \<and>
   anchorPosition sampleCollaborators squareObject OStart (ONumeric 0) = Point 0 0 \<and>
   anchorPosition sampleCollaborators
     (targetAfter (skewObject sampleCollaborators AxisY ()
        (skewTransformAdaptor sampleCollaborators AxisY ()
           \<lparr>target = squareObject, originX = OStart, originY = OCenter, lastX = 100, lastY = 50\<rparr>
           100 70)
        100 70))
     OStart (ONumeric 0) = Point 0 (- 20) \<and>
   returned (skewHandlerY sampleCollaborators ()
     \<lparr>target = squareObject, originX = OStart, originY = OCenter, lastX = 100, lastY = 50\<rparr>
     100 70) \<and>
   translateY (targetAfter (skewHandlerY sampleCollaborators ()
     \<lparr>target = squareObject, originX = OStart, originY = OCenter, lastX = 100, lastY = 50\<rparr>
     100 70)) = 70 \<and>
   anchorPosition sampleCollaborators
     (targetAfter (skewHandlerY sampleCollaborators ()
        \<lparr>target = squareObject, originX = OStart, originY = OCenter, lastX = 100, lastY = 50\<rparr>
        100 70))
     OStart (ONumeric 0) = Point 0 0"
proof -
  let ?tr = "\<lparr>target = squareObject, originX = OStart, originY = OCenter, lastX = 100, lastY = 50\<rparr>"
  have origins:
    "originX (skewTransformAdaptor sampleCollaborators AxisY () ?tr 100 70) = OStart"
    "originY (skewTransformAdaptor sampleCollaborators AxisY () ?tr 100 70) = ONumeric 0"
    by (simp_all add: handler_eval sample_eval)
  have before: "anchorPosition sampleCollaborators squareObject OStart (ONumeric 0) = Point 0 0"
    by (simp add: sample_eval)
  have engine: "anchorPosition sampleCollaborators
     (targetAfter (skewObject sampleCollaborators AxisY ()
        (skewTransformAdaptor sampleCollaborators AxisY () ?tr 100 70) 100 70))
     OStart (ONumeric 0) = Point 0 (- 20)"
    by (simp add: handler_eval sample_eval)
  have run: "returned (skewHandlerY sampleCollaborators () ?tr 100 70)"
    "translateY (targetAfter (skewHandlerY sampleCollaborators () ?tr 100 70)) = 70"
    by (simp_all add: handler_eval sample_eval)
  have size: "width (target ?tr) \<noteq> 0" "height (target ?tr) \<noteq> 0"
    by (simp_all add: squareObject_def)
  from anchor_is_fixed [OF sample_anchor_moves size, of "()" 100 70]
  have "anchorPosition sampleCollaborators
          (targetAfter (skewHandlerY sampleCollaborators () ?tr 100 70)) OStart (ONumeric 0) =
        Point 0 0"
    by (simp add: origins before)
  with origins before engine run show ?thesis
    by simp
qed

subsection \<open>A drag of length zero (C4)\<close>

text \<open>
  Claim C4: with the pointer at the session's last position a skew handler returns false,
  fires no event and leaves the target as it is. The y-axis handler does so
  (\<open>zero_delta_y_axis_is_noop\<close>). The x-axis handler does not: its change of basis puts
  \<open>tan(skewY) * width\<close> in the image of the x-basis vector whatever the drag (line 109),
  and composes it with an own matrix that holds the skew already
  (\<open>x_skew_adds_held_shear\<close>). The code evaluated at such an input: the object with
  \<open>skewY\<close> of 45 degrees, the x-axis handler with the pointer at the last position
  (50, 0). The own matrix \<open>[1, 1, 0, 1, 50, 50]\<close> is composed to \<open>[1, 2, 0, 1, 50, 50]\<close>,
  the handler returns true and fires the event; the y-axis handler on the object with
  \<open>skewX\<close> of 45 degrees, pointer at the last position, returns false.
\<close>

theorem zero_delta_x_axis_changes_matrix:
  "calcOwnMatrix sampleCollaborators (squareObject\<lparr>skewY := 45\<rparr>) = TMat2D 1 1 0 1 50 50 \<and>
   multiplyTransformMatrixChain
     [calcOwnMatrix sampleCollaborators (squareObject\<lparr>skewY := 45\<rparr>),
      shearingChange AxisX (squareObject\<lparr>skewY := 45\<rparr>)
        (skewingSide (skewTransformAdaptor sampleCollaborators AxisX ()
           \<lparr>target = squareObject\<lparr>skewY := 45\<rparr>, originX = OCenter, originY = OEnd,
            lastX = 50, lastY = 0\<rparr> 50 0))
        (createVector (Point 50 0) (Point 50 0))] = TMat2D 1 2 0 1 50 50 \<and>
   returned (skewHandlerX sampleCollaborators ()
     \<lparr>target = squareObject\<lparr>skewY := 45\<rparr>, originX = OCenter, originY = OEnd,
      lastX = 50, lastY = 0\<rparr> 50 0) \<and>
   fired (skewHandlerX sampleCollaborators ()
     \<lparr>target = squareObject\<lparr>skewY := 45\<rparr>, originX = OCenter, originY = OEnd,
      lastX = 50, lastY = 0\<rparr> 50 0) \<noteq> [] \<and>
   \<not> returned (skewHandlerY sampleCollaborators ()
     \<lparr>target = squareObject\<lparr>skewX := 45\<rparr>, originX = OEnd, originY = OCenter,
      lastX = 0, lastY = 50\<rparr> 0 50)"
  by (simp add: handler_eval sample_eval)

subsection \<open>A locked axis (C5)\<close>

text \<open>
  Claim C5. For every target with \<^verbatim>\<open>lockSkewingX\<close> set and every pointer, the x-axis handler
  returns false and leaves the target as it is (no event is fired either); the same holds
  for \<^verbatim>\<open>lockSkewingY\<close> and the y-axis handler.
\<close>

theorem locked_axis_is_noop:
  "(lockSkewingX (target transform) \<longrightarrow>
      skewHandlerX env eventData transform x y =
        \<lparr>returned = False, targetAfter = target transform, fired = []\<rparr>) \<and>
   (lockSkewingY (target transform) \<longrightarrow>
      skewHandlerY env eventData transform x y =
        \<lparr>returned = False, targetAfter = target transform, fired = []\<rparr>)"
  by (simp add: skewHandlerX_def skewHandlerY_def createSkewHandler_locked)

theorem locked_axis_is_noop_witness:
  "skewHandlerX sampleCollaborators () (centredSession (squareObject\<lparr>lockSkewingX := True\<rparr>)) 80 10 =
     \<lparr>returned = False, targetAfter = squareObject\<lparr>lockSkewingX := True\<rparr>, fired = []\<rparr> \<and>
   skewHandlerY sampleCollaborators () (centredSession (squareObject\<lparr>lockSkewingY := True\<rparr>)) 80 10 =
     \<lparr>returned = False, targetAfter = squareObject\<lparr>lockSkewingY := True\<rparr>, fired = []\<rparr>"
  using locked_axis_is_noop [of "centredSession (squareObject\<lparr>lockSkewingX := True\<rparr>)"
          sampleCollaborators "()" 80 10]
        locked_axis_is_noop [of "centredSession (squareObject\<lparr>lockSkewingY := True\<rparr>)"
          sampleCollaborators "()" 80 10]
  by (simp add: centredSession_def squareObject_def)

subsection \<open>The size is not touched (C6)\<close>

text \<open>
  Claim C6. For every pointer and every starting state, a skew handler leaves the width
  and the height of the target unchanged. \<^verbatim>\<open>skew.ts\<close> writes the target through the
  transform application only; the hypothesis is that this collaborator commits scale,
  skew, angle and translation, and does not write the size.
\<close>

theorem skew_handlers_keep_size:
  assumes "keeps_size env"
  shows "width (targetAfter (skewHandlerX env eventData transform x y)) = width (target transform) \<and>
         height (targetAfter (skewHandlerX env eventData transform x y)) = height (target transform) \<and>
         width (targetAfter (skewHandlerY env eventData transform x y)) = width (target transform) \<and>
         height (targetAfter (skewHandlerY env eventData transform x y)) = height (target transform)"
  by (simp add: skewHandlerX_def skewHandlerY_def createSkewHandler_size [OF assms])

theorem skew_handlers_keep_size_witness:
  "width (targetAfter (skewHandlerX sampleCollaborators ()
            \<lparr>target = squareObject, originX = OCenter, originY = OEnd, lastX = 50, lastY = 0\<rparr> 70 0)) = 100 \<and>
   height (targetAfter (skewHandlerX sampleCollaborators ()
            \<lparr>target = squareObject, originX = OCenter, originY = OEnd, lastX = 50, lastY = 0\<rparr> 70 0)) = 100 \<and>
   width (targetAfter (skewHandlerY sampleCollaborators ()
            \<lparr>target = squareObject, originX = OStart, originY = OCenter, lastX = 100, lastY = 50\<rparr> 100 70)) = 100 \<and>
   height (targetAfter (skewHandlerY sampleCollaborators ()
            \<lparr>target = squareObject, originX = OStart, originY = OCenter, lastX = 100, lastY = 50\<rparr> 100 70)) = 100"
  using skew_handlers_keep_size [OF sample_keeps_size, of "()"
          "\<lparr>target = squareObject, originX = OCenter, originY = OEnd, lastX = 50, lastY = 0\<rparr>" 70 0]
        skew_handlers_keep_size [OF sample_keeps_size, of "()"
          "\<lparr>target = squareObject, originX = OStart, originY = OCenter, lastX = 100, lastY = 50\<rparr>" 100 70]
  by (simp add: squareObject_def)

subsection \<open>The tie-break of the skewing direction (C7)\<close>

text \<open>
  Claim C7, as amended. The claim has the direction resolve to the positive branch when
  the skew on the axis is zero and the local offset of the pointer along the axis is
  zero. The condition of the source is
  \<^verbatim>\<open>(skew === 0 && local > 0) || skew > 0\<close>; with both zero it is false, because the
  comparison is strict. So: when the skew on the active axis is zero and the local offset
  along it is zero, the direction resolves to the negative branch, \<open>-1\<close> before it is
  multiplied by \<^verbatim>\<open>skewingSide\<close>.
\<close>

theorem zero_offset_takes_negative_branch:
  assumes "skewKey (AXIS_KEYS axis) (target transform) = 0"
    and "coord (getLocalPoint env transform OCenter OCenter x y) axis = 0"
  shows "skewingBranch env axis transform x y = - 1 \<and>
         skewingDirection env axis transform x y = - adaptorSkewingSide axis transform"
  using assms by (simp add: skewingDirection_def skewingBranch_def)

theorem zero_offset_takes_negative_branch_witness:
  "skewingBranch sampleCollaborators AxisX (centredSession squareObject) 50 50 = - 1 \<and>
   skewingDirection sampleCollaborators AxisX (centredSession squareObject) 50 50 =
     - adaptorSkewingSide AxisX (centredSession squareObject)"
  using zero_offset_takes_negative_branch [of AxisX "centredSession squareObject"
          sampleCollaborators 50 50]
  by (simp add: centredSession_def squareObject_def sampleCollaborators_def coord_def)

text \<open>
  The claim as stated fails on the unskewed object with the pointer at its centre: the
  branch is not \<open>+1\<close>.
\<close>

theorem zero_offset_positive_branch_counterexample:
  "skewKey (AXIS_KEYS AxisX) (target (centredSession squareObject)) = 0 \<and>
   coord (getLocalPoint sampleCollaborators (centredSession squareObject) OCenter OCenter 50 50) AxisX = 0 \<and>
   skewingBranch sampleCollaborators AxisX (centredSession squareObject) 50 50 \<noteq> 1"
  by (simp add: skewingBranch_def centredSession_def squareObject_def sampleCollaborators_def
      coord_def)

subsection \<open>A flip negates the skewing side (C8)\<close>

text \<open>
  Claim C8. For any counter-axis origin and any pointer, the \<^verbatim>\<open>skewingSide\<close> the adaptor
  computes for a target whose flip flag of the active axis is set is the negation of the
  one it computes for the same target with the flag cleared; and \<^verbatim>\<open>skewingSide\<close> is
  \<open>-sign(counterOriginFactor) * (flipped ? -1 : 1)\<close>.
\<close>

theorem flip_negates_skewingSide:
  "skewingSide (skewTransformAdaptor env AxisX eventData
      (transform\<lparr>target := (target transform)\<lparr>flipX := True\<rparr>\<rparr>) x y) =
   - skewingSide (skewTransformAdaptor env AxisX eventData
      (transform\<lparr>target := (target transform)\<lparr>flipX := False\<rparr>\<rparr>) x y) \<and>
   skewingSide (skewTransformAdaptor env AxisY eventData
      (transform\<lparr>target := (target transform)\<lparr>flipY := True\<rparr>\<rparr>) x y) =
   - skewingSide (skewTransformAdaptor env AxisY eventData
      (transform\<lparr>target := (target transform)\<lparr>flipY := False\<rparr>\<rparr>) x y) \<and>
   skewingSide (skewTransformAdaptor env axis eventData transform x y) =
   - sgn (counterOriginFactor axis transform) *
     (if flipKey (AXIS_KEYS axis) (target transform) then - 1 else 1)"
  by (simp add: adaptorSkewingSide_def counterOriginFactor_def)

theorem flip_negates_skewingSide_witness:
  "skewingSide (skewTransformAdaptor sampleCollaborators AxisX ()
      \<lparr>target = squareObject\<lparr>flipX := True\<rparr>, originX = OCenter, originY = OEnd,
       lastX = 50, lastY = 0\<rparr> 70 0) = 1 \<and>
   skewingSide (skewTransformAdaptor sampleCollaborators AxisX ()
      \<lparr>target = squareObject\<lparr>flipX := False\<rparr>, originX = OCenter, originY = OEnd,
       lastX = 50, lastY = 0\<rparr> 70 0) = - 1"
  using flip_negates_skewingSide [of sampleCollaborators "()"
          "\<lparr>target = squareObject, originX = OCenter, originY = OEnd, lastX = 50, lastY = 0\<rparr>"
          70 0 AxisX]
  by (simp add: adaptorSkewingSide_def counterOriginFactor_def squareObject_def)

subsection \<open>The cursor (C9)\<close>

text \<open>
  When a lock applies the cursor is the not-allowed cursor. When none applies and the
  corner quadrant is not negative, the cursor is the entry of the table
  \<open>[ns, nesw, ew, nwse]\<close> at the quadrant modulo 4, followed by \<open>-resize\<close>, and a quadrant
  larger by 1 gives the entry at the index larger by 1, modulo 4.
\<close>

lemma skewCursorStyleHandler_locked:
  assumes "(control_x control \<noteq> 0 \<and> lockSkewingY fabricObject) \<or>
           (control_y control \<noteq> 0 \<and> lockSkewingX fabricObject)"
  shows "skewCursorStyleHandler env eventData control fabricObject = NOT_ALLOWED_CURSOR"
  using assms by (auto simp add: skewCursorStyleHandler_def isLocked_def)

lemma skewCursorStyleHandler_nonnegative_quadrant:
  assumes "\<not> (control_x control \<noteq> 0 \<and> lockSkewingY fabricObject)"
    and "\<not> (control_y control \<noteq> 0 \<and> lockSkewingX fabricObject)"
    and "0 \<le> findCornerQuadrant env fabricObject control"
  shows "skewCursorStyleHandler env eventData control fabricObject =
           skewMap ! nat (findCornerQuadrant env fabricObject control mod 4) @ ''-resize''"
    and "nat (findCornerQuadrant env fabricObject control mod 4) < length skewMap"
    and "nat ((findCornerQuadrant env fabricObject control + 1) mod 4) =
           (nat (findCornerQuadrant env fabricObject control mod 4) + 1) mod 4"
proof -
  let ?q = "findCornerQuadrant env fabricObject control"
  have range: "0 \<le> ?q mod 4" "?q mod 4 < 4"
    by simp_all
  show "skewCursorStyleHandler env eventData control fabricObject =
          skewMap ! nat (?q mod 4) @ ''-resize''"
    using assms range
    by (auto simp add: skewCursorStyleHandler_def isLocked_def jsRemainder_def templateEntry_def
        skewMap_def Let_def)
  show "nat (?q mod 4) < length skewMap"
    using range by (simp add: skewMap_def)
  show "nat ((?q + 1) mod 4) = (nat (?q mod 4) + 1) mod 4"
    using assms(3) by (simp add: nat_mod_distrib nat_add_distrib mod_add_left_eq mod_Suc_eq)
qed

text \<open>
  A negative quadrant that is not a multiple of 4 leaves a negative index, where the
  table has no entry.
\<close>

lemma negative_quadrant_is_undefined:
  assumes "\<not> (control_x control \<noteq> 0 \<and> lockSkewingY fabricObject)"
    and "\<not> (control_y control \<noteq> 0 \<and> lockSkewingX fabricObject)"
    and "findCornerQuadrant env fabricObject control < 0"
    and "findCornerQuadrant env fabricObject control mod 4 \<noteq> 0"
  shows "skewCursorStyleHandler env eventData control fabricObject = ''undefined-resize''"
proof -
  let ?q = "findCornerQuadrant env fabricObject control"
  have "(- ?q) mod 4 \<noteq> 0"
    using assms(4) by (simp add: mod_minus_eq dvd_eq_mod_eq_0 [symmetric])
  moreover have "0 \<le> (- ?q) mod 4"
    by simp
  ultimately have "jsRemainder ?q 4 < 0"
    using assms(3) by (simp add: jsRemainder_def)
  then show ?thesis
    using assms(1,2)
    by (auto simp add: skewCursorStyleHandler_def isLocked_def templateEntry_def Let_def)
qed

text \<open>
  The quadrants of the instance: for the object that is not turned, the controls at the
  middle of the right, bottom, left and top edges have the quadrants 0, 2, 4 and 6; for
  the object at an angle of -300 degrees the control at the middle of the top edge has
  the quadrant -1.
\<close>

lemma sample_quadrants:
  "findCornerQuadrant sampleCollaborators squareObject (Control (1 / 2) 0) = 0"
  "findCornerQuadrant sampleCollaborators squareObject (Control 0 (1 / 2)) = 2"
  "findCornerQuadrant sampleCollaborators squareObject (Control (- (1 / 2)) 0) = 4"
  "findCornerQuadrant sampleCollaborators squareObject (Control 0 (- (1 / 2))) = 6"
  by (simp_all add: sampleCollaborators_def sampleFindCornerQuadrant_def atan2_def
      squareObject_def radiansToDegrees_def jsRemainderNumber_def Let_def)

lemma sample_quadrant_turned:
  "findCornerQuadrant sampleCollaborators (squareObject\<lparr>angle := - 300\<rparr>) (Control 0 (- (1 / 2))) = - 1"
proof -
  have "\<lceil>- (1 / 12) :: real\<rceil> = 0"
    by (simp add: ceiling_eq_iff)
  then have "jsRemainderNumber (- 30) 360 = - 30"
    by (simp add: jsRemainderNumber_def)
  moreover have "\<lfloor>- (1 / 6) :: real\<rfloor> = - 1"
    by (simp add: floor_eq_iff)
  ultimately show ?thesis
    by (simp add: sampleCollaborators_def sampleFindCornerQuadrant_def atan2_def squareObject_def
        radiansToDegrees_def Let_def)
qed

text \<open>
  Claim C9: when a lock applies the cursor is the not-allowed cursor, and otherwise it is
  the entry of the table at the corner quadrant modulo 4, followed by \<open>-resize\<close>. The
  first part holds (\<open>skewCursorStyleHandler_locked\<close>), and the second for a quadrant that
  is not negative (\<open>skewCursorStyleHandler_nonnegative_quadrant\<close>). The source computes
  \<^verbatim>\<open>findCornerQuadrant(...) % 4\<close>, and JavaScript's \<^verbatim>\<open>%\<close> keeps the sign of the quadrant:
  for a negative quadrant that is not a multiple of 4 the index is negative, the table
  has no entry there and the result is \<^verbatim>\<open>undefined-resize\<close>, which is no entry of the
  table and not what the comment of the function promises (a valid css string for the
  cursor). The code evaluated at such an input: the object at an angle of -300 degrees,
  no lock set, and the control at the middle of its top edge.
\<close>

theorem negative_quadrant_cursor:
  "findCornerQuadrant sampleCollaborators (squareObject\<lparr>angle := - 300\<rparr>) (Control 0 (- (1 / 2))) = - 1 \<and>
   jsRemainder (- 1) 4 = - 1 \<and>
   skewCursorStyleHandler sampleCollaborators () (Control 0 (- (1 / 2)))
     (squareObject\<lparr>angle := - 300\<rparr>) = ''undefined-resize'' \<and>
   ''undefined-resize'' \<notin> set (map (\<lambda>entry. entry @ ''-resize'') skewMap)"
  using sample_quadrant_turned
  by (simp add: skewCursorStyleHandler_def isLocked_def jsRemainder_def templateEntry_def
      skewMap_def Let_def squareObject_def)

subsection \<open>A counter-axis origin at the centre (C10)\<close>

text \<open>
  With a counter-axis origin that resolves to 0 the adaptor computes \<^verbatim>\<open>skewingSide\<close> 0, and
  the shear components \<open>d * skewingSide * 2\<close> are 0. For the y-axis the change of basis is
  then the identity and the handler is a no-op.
\<close>

lemma centre_counter_origin_skewingSide:
  assumes "resolveOrigin (originKey (AXIS_KEYS (counterAxis (AXIS_KEYS axis))) transform) = 0"
  shows "skewingSide (skewTransformAdaptor env axis eventData transform x y) = 0"
    and "px d * skewingSide (skewTransformAdaptor env axis eventData transform x y) * 2 = 0"
    and "py d * skewingSide (skewTransformAdaptor env axis eventData transform x y) * 2 = 0"
  using assms by (simp_all add: adaptorSkewingSide_def counterOriginFactor_def)

lemma centre_counter_origin_y_axis_is_noop:
  assumes "resolveOrigin (originX transform) = 0"
    and "width (target transform) \<noteq> 0" and "height (target transform) \<noteq> 0"
    and "0 \<le> epsilon env"
  shows "multiplyTransformMatrixChain
           [calcOwnMatrix env (target transform),
            shearingChange AxisY (target transform)
              (skewingSide (skewTransformAdaptor env AxisY eventData transform x y))
              (createVector (Point (lastX transform) (lastY transform)) (Point x y))] =
         calcOwnMatrix env (target transform)"
    and "lossless_on env (target transform) (calcOwnMatrix env (target transform)) \<Longrightarrow>
           returned (skewHandlerY env eventData transform x y) = False \<and>
           fired (skewHandlerY env eventData transform x y) = []"
    and "reapplies_own env (target transform) \<Longrightarrow>
           skewHandlerY env eventData transform x y =
             \<lparr>returned = False, targetAfter = target transform, fired = []\<rparr>"
proof -
  have side: "adaptorSkewingSide AxisY transform = 0"
    using assms(1) by (simp add: adaptorSkewingSide_def counterOriginFactor_def)
  have change: "shearingChange AxisY (target transform) (adaptorSkewingSide AxisY transform)
          (createVector (Point (lastX transform) (lastY transform)) (Point x y)) = iMatrix"
    unfolding side using assms(2,3) by (intro shearingChange_identity) simp_all
  show "multiplyTransformMatrixChain
           [calcOwnMatrix env (target transform),
            shearingChange AxisY (target transform)
              (skewingSide (skewTransformAdaptor env AxisY eventData transform x y))
              (createVector (Point (lastX transform) (lastY transform)) (Point x y))] =
         calcOwnMatrix env (target transform)"
    by (simp add: change chain_pair multiply_iMatrix_right)
  from createSkewHandler_identity_change [OF change assms(4)]
  show "lossless_on env (target transform) (calcOwnMatrix env (target transform)) \<Longrightarrow>
           returned (skewHandlerY env eventData transform x y) = False \<and>
           fired (skewHandlerY env eventData transform x y) = []"
    and "reapplies_own env (target transform) \<Longrightarrow>
           skewHandlerY env eventData transform x y =
             \<lparr>returned = False, targetAfter = target transform, fired = []\<rparr>"
    by (simp_all add: skewHandlerY_def)
qed

text \<open>
  Claim C10: for every axis and pointer, a counter-axis origin that resolves to 0 gives
  \<^verbatim>\<open>skewingSide\<close> 0, shear components of 0, a composed matrix equal to the own matrix and a
  handler that returns false. The x-axis handler breaks the last two when the target has
  a \<open>skewY\<close> of non-zero tangent, by the same \<open>tan(skewY) * width\<close> of line 109 as in C4.
  The code evaluated at such an input: the object with \<open>skewY\<close> of 45 degrees, both
  origins at the centre, the x-axis handler dragged from (50, 50) to (60, 50).
  \<^verbatim>\<open>skewingSide\<close> is 0 and the shear component is 0, yet the own matrix
  \<open>[1, 1, 0, 1, 50, 50]\<close> is composed to \<open>[1, 2, 0, 1, 50, 50]\<close> and the handler returns
  true; the y-axis handler on the object with \<open>skewX\<close> of 45 degrees, in the same session
  dragged from (50, 50) to (50, 60), returns false.
\<close>

theorem centre_origin_x_axis_changes_matrix:
  "resolveOrigin (originKey (AXIS_KEYS (counterAxis (AXIS_KEYS AxisX)))
     (centredSession (squareObject\<lparr>skewY := 45\<rparr>))) = 0 \<and>
   skewingSide (skewTransformAdaptor sampleCollaborators AxisX ()
     (centredSession (squareObject\<lparr>skewY := 45\<rparr>)) 60 50) = 0 \<and>
   px (createVector (Point 50 50) (Point 60 50)) *
     skewingSide (skewTransformAdaptor sampleCollaborators AxisX ()
       (centredSession (squareObject\<lparr>skewY := 45\<rparr>)) 60 50) * 2 = 0 \<and>
   calcOwnMatrix sampleCollaborators (squareObject\<lparr>skewY := 45\<rparr>) = TMat2D 1 1 0 1 50 50 \<and>
   multiplyTransformMatrixChain
     [calcOwnMatrix sampleCollaborators (squareObject\<lparr>skewY := 45\<rparr>),
      shearingChange AxisX (squareObject\<lparr>skewY := 45\<rparr>)
        (skewingSide (skewTransformAdaptor sampleCollaborators AxisX ()
           (centredSession (squareObject\<lparr>skewY := 45\<rparr>)) 60 50))
        (createVector (Point 50 50) (Point 60 50))] = TMat2D 1 2 0 1 50 50 \<and>
   returned (skewHandlerX sampleCollaborators () (centredSession (squareObject\<lparr>skewY := 45\<rparr>)) 60 50) \<and>
   \<not> returned (skewHandlerY sampleCollaborators () (centredSession (squareObject\<lparr>skewX := 45\<rparr>)) 50 60)"
  by (simp add: handler_eval sample_eval)


end
